theory Spec2Isabelle
  imports Main "HOL-Library.Word"
begin

section \<open>The student assignment viewer and the storage policies\<close>

text \<open>
  A shallow embedding of \<^verbatim>\<open>src/components/student/AssignmentViewer.tsx\<close> and of the
  policies on \<^verbatim>\<open>storage.objects\<close> declared by the two migrations.

  The component is a React function component: its \<^verbatim>\<open>useState\<close> cells are the fields
  of one record, each handler is a function from that record to the updated record and
  the list of effects it caused (requests sent to the store, toasts, console output), in
  the order the handler's own statements cause them. What the store answers to a request
  is an argument of the handler.

  Field names carry a prefix for the interface they belong to (\<open>a_\<close> Assignment,
  \<open>s_\<close> Submission, \<open>c_\<close> CourseInfo, \<open>u_\<close> the user, \<open>r_\<close> the inserted row), since
  several interfaces share the names \<open>id\<close>, \<open>title\<close> and \<open>status\<close>.
\<close>

subsection \<open>Strings\<close>

text \<open>
  A JavaScript string is a sequence of UTF-16 code units. \<open>js\<close> embeds an ASCII literal.
\<close>

type_synonym jsstring = "16 word list"

definition js :: "string \<Rightarrow> jsstring" where
  "js s = map (\<lambda>c. of_nat (of_char c)) s"

text \<open>
  \<^verbatim>\<open>String.prototype.trim\<close> removes white space and line terminators from both ends:
  TAB, VT, FF, SP, NBSP, ZWNBSP and the other space separators, then LF, CR, LS, PS.
\<close>

definition whitespace_units :: "16 word list" where
  "whitespace_units =
     [0x0009, 0x000B, 0x000C, 0x0020, 0x00A0, 0xFEFF,
      0x1680, 0x2000, 0x2001, 0x2002, 0x2003, 0x2004, 0x2005, 0x2006,
      0x2007, 0x2008, 0x2009, 0x200A, 0x202F, 0x205F, 0x3000,
      0x000A, 0x000D, 0x2028, 0x2029]"

definition is_whitespace :: "16 word \<Rightarrow> bool" where
  "is_whitespace c = (c \<in> set whitespace_units)"

definition trim :: "jsstring \<Rightarrow> jsstring" where
  "trim s = rev (dropWhile is_whitespace (rev (dropWhile is_whitespace s)))"

subsection \<open>Data\<close>

record Assignment =
  a_id :: jsstring
  a_course_id :: jsstring
  a_phase_number :: int
  a_title :: jsstring
  a_description :: "jsstring option"
  a_due_days :: "int option"
  a_max_score :: "int option"

record Submission =
  s_id :: jsstring
  s_assignment_id :: jsstring
  s_submission_text :: "jsstring option"
  s_score :: "int option"
  s_feedback :: "jsstring option"
  s_status :: jsstring
  s_submitted_at :: jsstring

record CourseInfo =
  c_id :: jsstring
  c_title :: jsstring
  c_current_phase :: int

record User =
  u_id :: jsstring

text \<open>The object literal handed to \<^verbatim>\<open>insert\<close>.\<close>

record submission_row =
  r_assignment_id :: jsstring
  r_student_id :: jsstring
  r_submission_text :: jsstring
  r_status :: jsstring

subsection \<open>The store\<close>

text \<open>
  The three query chains of the component. \<open>SelectAssignments ids\<close> is
  \<^verbatim>\<open>from("assignments").select("*").in("course_id", ids).order("phase_number", {ascending: true})\<close>,
  \<open>SelectSubmissions uid\<close> is
  \<^verbatim>\<open>from("assignment_submissions").select("*").eq("student_id", uid)\<close>, and
  \<open>InsertSubmission row\<close> is \<^verbatim>\<open>from("assignment_submissions").insert(row)\<close>.
\<close>

datatype request =
  SelectAssignments "jsstring list"
| SelectSubmissions jsstring
| InsertSubmission submission_row

fun is_write :: "request \<Rightarrow> bool" where
  "is_write (InsertSubmission _) = True"
| "is_write _ = False"

fun is_assignment_fetch :: "request \<Rightarrow> bool" where
  "is_assignment_fetch (SelectAssignments _) = True"
| "is_assignment_fetch _ = False"

datatype pg_error = PgError jsstring

text \<open>
  The client answers \<^verbatim>\<open>{data, error}\<close>: on failure \<^verbatim>\<open>error\<close> is set and
  \<^verbatim>\<open>data\<close> is null, on success \<^verbatim>\<open>error\<close> is null. A successful insert without
  \<^verbatim>\<open>select()\<close> carries no data either, so its answer is a \<open>unit option response\<close>
  with \<open>Success None\<close>.
\<close>

datatype 'a response = Failure pg_error | Success 'a

fun resp_error :: "'a response \<Rightarrow> pg_error option" where
  "resp_error (Failure e) = Some e"
| "resp_error (Success _) = None"

fun resp_data :: "'a option response \<Rightarrow> 'a option" where
  "resp_data (Failure _) = None"
| "resp_data (Success d) = d"

text \<open>\<^verbatim>\<open>data || []\<close>\<close>

fun or_empty :: "'a list option \<Rightarrow> 'a list" where
  "or_empty None = []"
| "or_empty (Some d) = d"

subsection \<open>Objects as dictionaries\<close>

text \<open>
  The component keeps the assignments in a \<^verbatim>\<open>Record<string, Assignment[]>\<close>: a plain
  object, created as \<^verbatim>\<open>{}\<close>, whose own properties are the arrays. Reading
  \<^verbatim>\<open>obj[k]\<close> finds an own property first and otherwise what every object inherits from
  \<^verbatim>\<open>Object.prototype\<close>: eleven built-in functions, each with its \<^verbatim>\<open>length\<close>, and the
  accessor \<^verbatim>\<open>__proto__\<close>, which gives \<^verbatim>\<open>Object.prototype\<close> itself. All of them are
  truthy, none has \<^verbatim>\<open>push\<close>, \<^verbatim>\<open>filter\<close> or \<^verbatim>\<open>map\<close>, and \<^verbatim>\<open>Object.prototype\<close> has no
  \<^verbatim>\<open>length\<close>.
\<close>

datatype js_error = TypeError

datatype inherited = BuiltinFunction nat | ObjectPrototype

definition object_prototype :: "(jsstring \<times> inherited) list" where
  "object_prototype =
     [(js ''constructor'', BuiltinFunction 1),
      (js ''hasOwnProperty'', BuiltinFunction 1),
      (js ''isPrototypeOf'', BuiltinFunction 1),
      (js ''propertyIsEnumerable'', BuiltinFunction 1),
      (js ''toLocaleString'', BuiltinFunction 0),
      (js ''toString'', BuiltinFunction 0),
      (js ''valueOf'', BuiltinFunction 0),
      (js ''__defineGetter__'', BuiltinFunction 2),
      (js ''__defineSetter__'', BuiltinFunction 2),
      (js ''__lookupGetter__'', BuiltinFunction 1),
      (js ''__lookupSetter__'', BuiltinFunction 1),
      (js ''__proto__'', ObjectPrototype)]"

definition inherited_name :: "jsstring \<Rightarrow> bool" where
  "inherited_name k = (map_of object_prototype k \<noteq> None)"

datatype 'a property = Undefined | ArrayValue "'a list" | Inherited inherited

definition js_get :: "(jsstring \<rightharpoonup> 'a list) \<Rightarrow> jsstring \<Rightarrow> 'a property" where
  "js_get obj k =
     (case obj k of
        Some xs \<Rightarrow> ArrayValue xs
      | None \<Rightarrow>
          (case map_of object_prototype k of
             Some v \<Rightarrow> Inherited v
           | None \<Rightarrow> Undefined))"

subsection \<open>Effects and component state\<close>

text \<open>
  \<open>UnhandledRejection\<close> is an exception thrown inside an \<^verbatim>\<open>async\<close> function that no
  caller awaits or catches: the function stops there.
\<close>

datatype event =
  Request request
| ToastError jsstring
| ToastSuccess jsstring
| ConsoleError jsstring pg_error
| UnhandledRejection js_error

fun requests_of :: "event list \<Rightarrow> request list" where
  "requests_of [] = []"
| "requests_of (Request r # es) = r # requests_of es"
| "requests_of (_ # es) = requests_of es"

fun toasts_of :: "event list \<Rightarrow> event list" where
  "toasts_of [] = []"
| "toasts_of (ToastError m # es) = ToastError m # toasts_of es"
| "toasts_of (ToastSuccess m # es) = ToastSuccess m # toasts_of es"
| "toasts_of (_ # es) = toasts_of es"

text \<open>The \<^verbatim>\<open>useState\<close> cells; the map holds the own properties of \<^verbatim>\<open>assignments\<close>.\<close>

record viewer_state =
  assignments :: "jsstring \<rightharpoonup> Assignment list"
  submissions :: "Submission list"
  selectedAssignment :: "Assignment option"
  submissionText :: jsstring
  viewingFeedback :: "Submission option"

text \<open>\<^verbatim>\<open><Dialog open={!!selectedAssignment} ...>\<close>\<close>

definition submitDialogOpen :: "viewer_state \<Rightarrow> bool" where
  "submitDialogOpen st = (selectedAssignment st \<noteq> None)"

subsection \<open>The data loader\<close>

text \<open>
  One step of the \<^verbatim>\<open>forEach\<close> in \<^verbatim>\<open>fetchAssignments\<close>: when \<^verbatim>\<open>grouped[course_id]\<close> is
  falsy, that is undefined, the course gets an empty array; then the row is pushed onto
  \<^verbatim>\<open>grouped[course_id]\<close>, which throws a \<^verbatim>\<open>TypeError\<close> when that is not an array.
\<close>

definition push_grouped ::
  "(jsstring \<rightharpoonup> Assignment list) \<Rightarrow> Assignment
     \<Rightarrow> js_error + (jsstring \<rightharpoonup> Assignment list)" where
  "push_grouped grouped assignment =
     (let k = a_course_id assignment;
          g = (case js_get grouped k of
                 Undefined \<Rightarrow> grouped(k \<mapsto> [])
               | _ \<Rightarrow> grouped)
      in case js_get g k of
           ArrayValue xs \<Rightarrow> Inr (g(k \<mapsto> xs @ [assignment]))
         | _ \<Rightarrow> Inl TypeError)"

text \<open>The \<^verbatim>\<open>forEach\<close>: the first exception ends it.\<close>

fun forEach_push ::
  "(jsstring \<rightharpoonup> Assignment list) \<Rightarrow> Assignment list
     \<Rightarrow> js_error + (jsstring \<rightharpoonup> Assignment list)" where
  "forEach_push grouped [] = Inr grouped"
| "forEach_push grouped (assignment # rest) =
     (case push_grouped grouped assignment of
        Inl e \<Rightarrow> Inl e
      | Inr g \<Rightarrow> forEach_push g rest)"

text \<open>
  An \<^verbatim>\<open>async\<close> function runs up to its \<^verbatim>\<open>await\<close> when it is called, which sends the
  request (\<open>_sent\<close>), and runs the rest when the answer has come (\<open>_resumed\<close>).
\<close>

definition fetchAssignments_sent :: "CourseInfo list \<Rightarrow> event list" where
  "fetchAssignments_sent courses =
     (let courseIds = map c_id courses
      in [Request (SelectAssignments courseIds)])"

definition fetchAssignments_resumed ::
  "Assignment list option response \<Rightarrow> viewer_state \<Rightarrow> viewer_state \<times> event list" where
  "fetchAssignments_resumed resp st =
     (case resp_error resp of
        Some error \<Rightarrow> (st, [ConsoleError (js ''Failed to fetch assignments:'') error])
      | None \<Rightarrow>
          (case forEach_push Map.empty (or_empty (resp_data resp)) of
             Inl e \<Rightarrow> (st, [UnhandledRejection e])
           | Inr grouped \<Rightarrow> (st\<lparr>assignments := grouped\<rparr>, [])))"

definition fetchAssignments ::
  "CourseInfo list \<Rightarrow> Assignment list option response \<Rightarrow> viewer_state
     \<Rightarrow> viewer_state \<times> event list" where
  "fetchAssignments courses resp st =
     (let (st', ev) = fetchAssignments_resumed resp st
      in (st', fetchAssignments_sent courses @ ev))"

definition fetchSubmissions_sent :: "User option \<Rightarrow> event list" where
  "fetchSubmissions_sent user =
     (case user of
        None \<Rightarrow> []
      | Some u \<Rightarrow> [Request (SelectSubmissions (u_id u))])"

definition fetchSubmissions_resumed ::
  "User option \<Rightarrow> Submission list option response \<Rightarrow> viewer_state
     \<Rightarrow> viewer_state \<times> event list" where
  "fetchSubmissions_resumed user resp st =
     (case user of
        None \<Rightarrow> (st, [])
      | Some u \<Rightarrow> (st\<lparr>submissions := or_empty (resp_data resp)\<rparr>, []))"

definition fetchSubmissions ::
  "User option \<Rightarrow> Submission list option response \<Rightarrow> viewer_state
     \<Rightarrow> viewer_state \<times> event list" where
  "fetchSubmissions user resp st =
     (let (st', ev) = fetchSubmissions_resumed user resp st
      in (st', fetchSubmissions_sent user @ ev))"

text \<open>
  The body of the \<^verbatim>\<open>useEffect\<close> on \<^verbatim>\<open>[courses, user]\<close>: both calls send their
  request before either answer is handled. The two continuations write different state
  cells and only the first has effects of its own, so the order in which the answers
  come changes neither the state nor the list of effects.
\<close>

definition loadEffect ::
  "CourseInfo list \<Rightarrow> User option \<Rightarrow> Assignment list option response
     \<Rightarrow> Submission list option response \<Rightarrow> viewer_state \<Rightarrow> viewer_state \<times> event list" where
  "loadEffect courses user aresp sresp st =
     (if length courses > 0 \<and> user \<noteq> None then
        (let (st1, ev1) = fetchAssignments_resumed aresp st;
             (st2, ev2) = fetchSubmissions_resumed user sresp st1
         in (st2, fetchAssignments_sent courses @ fetchSubmissions_sent user @ ev1 @ ev2))
      else (st, []))"

subsection \<open>The submit handler\<close>

definition handleSubmit ::
  "User option \<Rightarrow> unit option response \<Rightarrow> Submission list option response \<Rightarrow> viewer_state
     \<Rightarrow> viewer_state \<times> event list" where
  "handleSubmit user iresp sresp st =
     (let reject = (st, [ToastError (js ''Please enter your submission'')])
      in case user of
           None \<Rightarrow> reject
         | Some u \<Rightarrow>
             (case selectedAssignment st of
                None \<Rightarrow> reject
              | Some a \<Rightarrow>
                  if trim (submissionText st) = [] then reject
                  else
                    (let req = Request (InsertSubmission
                                 \<lparr>r_assignment_id = a_id a,
                                  r_student_id = u_id u,
                                  r_submission_text = trim (submissionText st),
                                  r_status = js ''pending''\<rparr>)
                     in case resp_error iresp of
                          Some error \<Rightarrow>
                            (st, [req, ToastError (js ''Failed to submit assignment'')])
                        | None \<Rightarrow>
                            (let st1 = st\<lparr>selectedAssignment := None, submissionText := []\<rparr>;
                                 (st2, ev) = fetchSubmissions user sresp st1
                             in (st2,
                                 [req, ToastSuccess (js ''Assignment submitted successfully!'')]
                                   @ ev)))))"

subsection \<open>The view model\<close>

definition getSubmission :: "viewer_state \<Rightarrow> jsstring \<Rightarrow> Submission option" where
  "getSubmission st assignmentId =
     List.find (\<lambda>s. s_assignment_id s = assignmentId) (submissions st)"

datatype icon = Clock | CheckCircle

text \<open>A \<^verbatim>\<open><Badge>\<close> element: its \<^verbatim>\<open>variant\<close> and \<^verbatim>\<open>className\<close> props, its icon, its text.\<close>

record badge =
  b_variant :: "jsstring option"
  b_className :: "jsstring option"
  b_icon :: "icon option"
  b_text :: jsstring

definition getStatusBadge :: "Submission option \<Rightarrow> badge" where
  "getStatusBadge submission =
     (case submission of
        None \<Rightarrow>
          \<lparr>b_variant = Some (js ''outline''), b_className = Some (js ''text-muted-foreground''),
           b_icon = Some Clock, b_text = js ''Not submitted''\<rparr>
      | Some s \<Rightarrow>
          if s_status s = js ''pending'' then
            \<lparr>b_variant = None, b_className = Some (js ''bg-yellow-500/10 text-yellow-600''),
             b_icon = Some Clock, b_text = js ''Pending''\<rparr>
          else if s_status s = js ''graded'' then
            \<lparr>b_variant = None, b_className = Some (js ''bg-green-500/10 text-green-600''),
             b_icon = Some CheckCircle, b_text = js ''Graded''\<rparr>
          else
            \<lparr>b_variant = Some (js ''secondary''), b_className = None,
             b_icon = None, b_text = s_status s\<rparr>)"

text \<open>
  \<^verbatim>\<open>assignments[courseId]?.length || 0\<close>: the length of the array, the \<^verbatim>\<open>length\<close> of an
  inherited function, and 0 where there is no property or no \<^verbatim>\<open>length\<close>.
\<close>

definition getAssignmentCountForCourse :: "viewer_state \<Rightarrow> jsstring \<Rightarrow> nat" where
  "getAssignmentCountForCourse st courseId =
     (case js_get (assignments st) courseId of
        Undefined \<Rightarrow> 0
      | ArrayValue xs \<Rightarrow> length xs
      | Inherited (BuiltinFunction n) \<Rightarrow> n
      | Inherited ObjectPrototype \<Rightarrow> 0)"

text \<open>
  \<^verbatim>\<open>(assignments[courseId] || []).filter(...).length\<close>: an inherited value is truthy and
  has no \<^verbatim>\<open>filter\<close>, so the call throws.
\<close>

definition getCompletedCountForCourse :: "viewer_state \<Rightarrow> jsstring \<Rightarrow> js_error + nat" where
  "getCompletedCountForCourse st courseId =
     (case (case js_get (assignments st) courseId of
              Undefined \<Rightarrow> ArrayValue []
            | v \<Rightarrow> v) of
        ArrayValue courseAssignments \<Rightarrow>
          Inr (length (filter (\<lambda>a. getSubmission st (a_id a) \<noteq> None) courseAssignments))
      | _ \<Rightarrow> Inl TypeError)"

subsection \<open>The presentation tree\<close>

text \<open>
  The children of the row's \<^verbatim>\<open><div className="flex gap-2">\<close>: the submit button (its
  click selects the assignment), the feedback button (its click opens the feedback dialog
  on the submission) and the paragraph shown while a tutor has not reviewed yet.
\<close>

datatype row_element =
  SubmitButton Assignment
| ViewFeedbackButton Submission
| AwaitingReviewText

definition row_elements :: "Assignment \<Rightarrow> Submission option \<Rightarrow> row_element list" where
  "row_elements assignment submission =
     (if submission = None then [SubmitButton assignment] else [])
     @ (case submission of
          Some s \<Rightarrow> if s_status s = js ''graded'' then [ViewFeedbackButton s] else []
        | None \<Rightarrow> [])
     @ (case submission of
          Some s \<Rightarrow> if s_status s = js ''pending'' then [AwaitingReviewText] else []
        | None \<Rightarrow> [])"

record row_view =
  row_assignment :: Assignment
  row_badge :: badge
  row_description :: "jsstring option"
  row_children :: "row_element list"

definition render_row :: "viewer_state \<Rightarrow> Assignment \<Rightarrow> row_view" where
  "render_row st assignment =
     (let submission = getSubmission st (a_id assignment)
      in \<lparr>row_assignment = assignment,
          row_badge = getStatusBadge submission,
          row_description =
            (case a_description assignment of
               None \<Rightarrow> None
             | Some d \<Rightarrow> if d = [] then None else Some d),
          row_children = row_elements assignment submission\<rparr>)"

datatype section_content =
  NoAssignments jsstring
| Rows "row_view list"

record section_view =
  sec_course :: CourseInfo
  sec_completed :: nat
  sec_total :: nat
  sec_content :: section_content

text \<open>
  The content of a course's section:
  \<^verbatim>\<open>!assignments[course.id] || assignments[course.id].length === 0 ? ... : assignments[course.id].map(...)\<close>.
\<close>

definition render_content :: "viewer_state \<Rightarrow> CourseInfo \<Rightarrow> js_error + section_content" where
  "render_content st course =
     (case js_get (assignments st) (c_id course) of
        Undefined \<Rightarrow> Inr (NoAssignments (js ''No assignments available yet''))
      | ArrayValue xs \<Rightarrow>
          if length xs = 0 then Inr (NoAssignments (js ''No assignments available yet''))
          else Inr (Rows (map (render_row st) xs))
      | Inherited (BuiltinFunction n) \<Rightarrow>
          if n = 0 then Inr (NoAssignments (js ''No assignments available yet''))
          else Inl TypeError
      | Inherited ObjectPrototype \<Rightarrow> Inl TypeError)"

text \<open>The header's badge is evaluated before the content; an exception leaves the render.\<close>

definition render_section :: "viewer_state \<Rightarrow> CourseInfo \<Rightarrow> js_error + section_view" where
  "render_section st course =
     (case getCompletedCountForCourse st (c_id course) of
        Inl e \<Rightarrow> Inl e
      | Inr completed \<Rightarrow>
          (let total = getAssignmentCountForCourse st (c_id course)
           in case render_content st course of
                Inl e \<Rightarrow> Inl e
              | Inr content \<Rightarrow>
                  Inr \<lparr>sec_course = course, sec_completed = completed, sec_total = total,
                       sec_content = content\<rparr>))"

text \<open>\<^verbatim>\<open>courses.map(...)\<close> with a callback that may throw.\<close>

fun map_throwing :: "('a \<Rightarrow> js_error + 'b) \<Rightarrow> 'a list \<Rightarrow> js_error + 'b list" where
  "map_throwing f [] = Inr []"
| "map_throwing f (x # xs) =
     (case f x of
        Inl e \<Rightarrow> Inl e
      | Inr y \<Rightarrow> (case map_throwing f xs of Inl e \<Rightarrow> Inl e | Inr ys \<Rightarrow> Inr (y # ys)))"

datatype view =
  EmptyState jsstring
| CourseAccordion "section_view list"

definition render :: "CourseInfo list \<Rightarrow> viewer_state \<Rightarrow> js_error + view" where
  "render courses st =
     (if length courses = 0 then Inr (EmptyState (js ''Enroll in a course to see assignments''))
      else (case map_throwing (render_section st) courses of
              Inl e \<Rightarrow> Inl e
            | Inr sections \<Rightarrow> Inr (CourseAccordion sections)))"

subsection \<open>Row-level security on \<^verbatim>\<open>storage.objects\<close>\<close>

text \<open>
  SQL text is a \<open>string\<close>, a user identifier is the text of its UUID, and an SQL boolean
  is a \<open>bool option\<close> with \<open>None\<close> for NULL. A policy admits a row when its expression is
  true; NULL and false both reject.
\<close>

type_synonym sqlbool = "bool option"

fun sql_and :: "sqlbool \<Rightarrow> sqlbool \<Rightarrow> sqlbool" where
  "sql_and (Some False) _ = Some False"
| "sql_and _ (Some False) = Some False"
| "sql_and (Some True) (Some True) = Some True"
| "sql_and _ _ = None"

definition sql_eq :: "'a option \<Rightarrow> 'a option \<Rightarrow> sqlbool" where
  "sql_eq x y = (case x of None \<Rightarrow> None | Some a \<Rightarrow> (case y of None \<Rightarrow> None | Some b \<Rightarrow> Some (a = b)))"

definition sql_is_not_null :: "'a option \<Rightarrow> sqlbool" where
  "sql_is_not_null x = Some (x \<noteq> None)"

text \<open>Array subscripts start at 1; a subscript outside the array gives NULL.\<close>

definition sql_subscript :: "'a list \<Rightarrow> nat \<Rightarrow> 'a option" where
  "sql_subscript xs i = (if 1 \<le> i \<and> i \<le> length xs then Some (xs ! (i - 1)) else None)"

text \<open>
  \<^verbatim>\<open>storage.foldername\<close> belongs to the storage service, not to this repository: it
  splits the object name at every \<^verbatim>\<open>/\<close> (\<^verbatim>\<open>string_to_array\<close>, which gives the empty
  array for the empty text) and drops the last part, the file name.
\<close>

primrec split_slash :: "string \<Rightarrow> string \<Rightarrow> string list" where
  "split_slash cur [] = [rev cur]"
| "split_slash cur (c # cs) =
     (if c = CHR ''/'' then rev cur # split_slash [] cs else split_slash (c # cur) cs)"

definition string_to_array :: "string \<Rightarrow> string list" where
  "string_to_array name = (if name = [] then [] else split_slash [] name)"

definition foldername :: "string \<Rightarrow> string list" where
  "foldername name = butlast (string_to_array name)"

record object_row =
  bucket_id :: string
  name :: string

record tutor_course =
  tc_tutor_id :: string
  tc_course_id :: string

text \<open>
  What a policy expression reads beside the row: \<^verbatim>\<open>auth.uid()\<close>, the table
  \<^verbatim>\<open>public.tutor_courses\<close>, and \<^verbatim>\<open>public.has_role\<close>, a function of the database
  that the two migrations use and do not define; it is a parameter here.
\<close>

record db_env =
  auth_uid :: "string option"
  tutor_courses :: "tutor_course list"
  has_role :: "string option \<Rightarrow> string \<Rightarrow> sqlbool"

text \<open>\<^verbatim>\<open>EXISTS (SELECT 1 FROM tutor_courses tc WHERE tc.tutor_id = auth.uid())\<close>\<close>

definition is_tutor :: "db_env \<Rightarrow> sqlbool" where
  "is_tutor env =
     Some (list_ex (\<lambda>tc. sql_eq (Some (tc_tutor_id tc)) (auth_uid env) = Some True)
             (tutor_courses env))"

datatype command = CmdSelect | CmdInsert | CmdUpdate | CmdDelete

datatype policy_for = ForAll | For command

type_synonym policy_expr = "db_env \<Rightarrow> object_row \<Rightarrow> sqlbool"

record policy =
  p_name :: string
  p_for :: policy_for
  p_using :: "policy_expr option"
  p_with_check :: "policy_expr option"

definition students_upload :: policy where
  "students_upload =
     \<lparr>p_name = ''Students can upload submission files'',
      p_for = For CmdInsert,
      p_using = None,
      p_with_check = Some (\<lambda>env row.
        sql_and (Some (bucket_id row = ''assignments''))
         (sql_and (sql_is_not_null (auth_uid env))
           (sql_and (sql_eq (sql_subscript (foldername (name row)) 1) (Some ''submissions''))
                    (sql_eq (sql_subscript (foldername (name row)) 2) (auth_uid env)))))\<rparr>"

definition students_view :: policy where
  "students_view =
     \<lparr>p_name = ''Students can view own submission files'',
      p_for = For CmdSelect,
      p_using = Some (\<lambda>env row.
        sql_and (Some (bucket_id row = ''assignments''))
         (sql_and (sql_eq (sql_subscript (foldername (name row)) 1) (Some ''submissions''))
                  (sql_eq (sql_subscript (foldername (name row)) 2) (auth_uid env)))),
      p_with_check = None\<rparr>"

definition tutors_view :: policy where
  "tutors_view =
     \<lparr>p_name = ''Tutors can view submission files'',
      p_for = For CmdSelect,
      p_using = Some (\<lambda>env row.
        sql_and (Some (bucket_id row = ''assignments''))
         (sql_and (sql_eq (sql_subscript (foldername (name row)) 1) (Some ''submissions''))
                  (is_tutor env))),
      p_with_check = None\<rparr>"

definition admins_manage_assignments :: policy where
  "admins_manage_assignments =
     \<lparr>p_name = ''Admins can manage all assignment files'',
      p_for = ForAll,
      p_using = Some (\<lambda>env row.
        sql_and (Some (bucket_id row = ''assignments''))
                (has_role env (auth_uid env) ''admin'')),
      p_with_check = None\<rparr>"

definition anyone_views_materials :: policy where
  "anyone_views_materials =
     \<lparr>p_name = ''Anyone can view lesson materials files'',
      p_for = For CmdSelect,
      p_using = Some (\<lambda>env row. Some (bucket_id row = ''lesson-materials'')),
      p_with_check = None\<rparr>"

definition tutors_upload_materials :: policy where
  "tutors_upload_materials =
     \<lparr>p_name = ''Tutors can upload lesson materials'',
      p_for = For CmdInsert,
      p_using = None,
      p_with_check = Some (\<lambda>env row.
        sql_and (Some (bucket_id row = ''lesson-materials'')) (is_tutor env))\<rparr>"

definition tutors_delete_materials :: policy where
  "tutors_delete_materials =
     \<lparr>p_name = ''Tutors can delete their lesson materials'',
      p_for = For CmdDelete,
      p_using = Some (\<lambda>env row.
        sql_and (Some (bucket_id row = ''lesson-materials'')) (is_tutor env)),
      p_with_check = None\<rparr>"

definition admins_manage_materials :: policy where
  "admins_manage_materials =
     \<lparr>p_name = ''Admins can manage all lesson materials files'',
      p_for = ForAll,
      p_using = Some (\<lambda>env row.
        sql_and (Some (bucket_id row = ''lesson-materials''))
                (has_role env (auth_uid env) ''admin'')),
      p_with_check = None\<rparr>"

text \<open>Every policy the two migrations create on \<^verbatim>\<open>storage.objects\<close>.\<close>

definition storage_policies :: "policy list" where
  "storage_policies =
     [students_upload, students_view, tutors_view, admins_manage_assignments,
      anyone_views_materials, tutors_upload_materials, tutors_delete_materials,
      admins_manage_materials]"

definition applies_to :: "policy \<Rightarrow> command \<Rightarrow> bool" where
  "applies_to p cmd = (p_for p = ForAll \<or> p_for p = For cmd)"

text \<open>
  A new row is checked against \<^verbatim>\<open>WITH CHECK\<close>, and against \<^verbatim>\<open>USING\<close> where the
  policy has no \<^verbatim>\<open>WITH CHECK\<close>; an existing row is filtered by \<^verbatim>\<open>USING\<close>. An absent
  expression admits every row.
\<close>

definition check_passes :: "policy \<Rightarrow> db_env \<Rightarrow> object_row \<Rightarrow> bool" where
  "check_passes p env row =
     (case p_with_check p of
        Some e \<Rightarrow> e env row = Some True
      | None \<Rightarrow> (case p_using p of Some e \<Rightarrow> e env row = Some True | None \<Rightarrow> True))"

definition using_passes :: "policy \<Rightarrow> db_env \<Rightarrow> object_row \<Rightarrow> bool" where
  "using_passes p env row =
     (case p_using p of Some e \<Rightarrow> e env row = Some True | None \<Rightarrow> True)"

text \<open>The policies are all permissive: one that passes is enough.\<close>

definition insert_permitted :: "db_env \<Rightarrow> object_row \<Rightarrow> bool" where
  "insert_permitted env row =
     list_ex (\<lambda>p. applies_to p CmdInsert \<and> check_passes p env row) storage_policies"

definition select_permitted :: "db_env \<Rightarrow> object_row \<Rightarrow> bool" where
  "select_permitted env row =
     list_ex (\<lambda>p. applies_to p CmdSelect \<and> using_passes p env row) storage_policies"

subsection \<open>A scenario\<close>

text \<open>
  One course \<^verbatim>\<open>c1\<close> with one assignment \<^verbatim>\<open>a1\<close>, a student \<^verbatim>\<open>u1\<close> who has the
  submit dialog open on \<^verbatim>\<open>a1\<close> and has typed \<^verbatim>\<open>" My answer\n"\<close>.
\<close>

definition ex_course :: CourseInfo where
  "ex_course = \<lparr>c_id = js ''c1'', c_title = js ''Algebra I'', c_current_phase = 1\<rparr>"

definition ex_assignment :: Assignment where
  "ex_assignment =
     \<lparr>a_id = js ''a1'', a_course_id = js ''c1'', a_phase_number = 1, a_title = js ''HW1'',
      a_description = None, a_due_days = Some 7, a_max_score = Some 100\<rparr>"

text \<open>What the store may answer for two courses, ordered by phase number.\<close>

definition ex_fetched :: "Assignment list" where
  "ex_fetched =
     [ex_assignment,
      \<lparr>a_id = js ''b1'', a_course_id = js ''c2'', a_phase_number = 1, a_title = js ''Lab1'',
       a_description = None, a_due_days = None, a_max_score = None\<rparr>,
      \<lparr>a_id = js ''a2'', a_course_id = js ''c1'', a_phase_number = 2, a_title = js ''HW2'',
       a_description = Some (js ''Second homework''), a_due_days = Some 7,
       a_max_score = Some 100\<rparr>]"


definition ex_user :: User where
  "ex_user = \<lparr>u_id = js ''u1''\<rparr>"

definition ex_submission :: Submission where
  "ex_submission =
     \<lparr>s_id = js ''s1'', s_assignment_id = js ''a1'', s_submission_text = Some (js ''My answer''),
      s_score = None, s_feedback = None, s_status = js ''pending'',
      s_submitted_at = js ''2026-01-05T02:07:51Z''\<rparr>"

definition ex_state :: viewer_state where
  "ex_state =
     \<lparr>assignments = [js ''c1'' \<mapsto> [ex_assignment]],
      submissions = [],
      selectedAssignment = Some ex_assignment,
      submissionText = js '' My answer'' @ [0x000A],
      viewingFeedback = None\<rparr>"

text \<open>The student \<^verbatim>\<open>u1\<close> at the database, neither tutor nor admin, and a file of theirs.\<close>

definition ex_env :: db_env where
  "ex_env = \<lparr>auth_uid = Some ''u1'', tutor_courses = [], has_role = (\<lambda>_ _. Some False)\<rparr>"

definition ex_object :: object_row where
  "ex_object = \<lparr>bucket_id = ''assignments'', name = ''submissions/u1/essay.pdf''\<rparr>"

section \<open>Supporting lemmas\<close>

subsection \<open>Trimming\<close>

text \<open>The trimmed buffer is empty exactly for a buffer of white space only (the empty one included).\<close>

lemma trim_empty_iff: "trim s = [] \<longleftrightarrow> list_all is_whitespace s"
proof
  assume "trim s = []"
  then have all: "\<forall>x\<in>set (dropWhile is_whitespace s). is_whitespace x"
    by (simp add: trim_def)
  have "dropWhile is_whitespace s = []"
  proof (rule ccontr)
    assume ne: "dropWhile is_whitespace s \<noteq> []"
    then have "\<not> is_whitespace (hd (dropWhile is_whitespace s))"
      by (rule hd_dropWhile)
    moreover have "hd (dropWhile is_whitespace s) \<in> set (dropWhile is_whitespace s)"
      using ne by simp
    ultimately show False using all by blast
  qed
  then show "list_all is_whitespace s"
    by (simp add: list_all_iff)
next
  assume "list_all is_whitespace s"
  then show "trim s = []"
    by (auto simp add: trim_def list_all_iff dest: set_dropWhileD)
qed

lemma ex_trim: "trim (submissionText ex_state) = js ''My answer''"
  by (simp add: ex_state_def trim_def is_whitespace_def whitespace_units_def js_def)

lemma ex_selected: "selectedAssignment ex_state = Some ex_assignment"
  by (simp add: ex_state_def)

lemma ex_trim_nonempty: "trim (submissionText ex_state) \<noteq> []"
  by (simp add: ex_trim js_def)

subsection \<open>Lookups and grouping\<close>

lemma js_get_own: "obj k = Some xs \<Longrightarrow> js_get obj k = ArrayValue xs"
  by (simp add: js_get_def)

lemma js_get_plain: "obj k = None \<Longrightarrow> \<not> inherited_name k \<Longrightarrow> js_get obj k = Undefined"
  by (simp add: js_get_def inherited_name_def)


lemma push_grouped_plain:
  assumes "\<not> inherited_name (a_course_id x)"
  shows "push_grouped m x = Inr (m(a_course_id x \<mapsto> or_empty (m (a_course_id x)) @ [x]))"
proof (cases "m (a_course_id x)")
  case None
  with assms show ?thesis
    by (simp add: push_grouped_def js_get_plain js_get_own)
next
  case (Some xs)
  then show ?thesis
    by (simp add: push_grouped_def js_get_own)
qed


lemma filter_absent: "c \<notin> f ` set xs \<Longrightarrow> filter (\<lambda>a. f a = c) xs = []"
  by (induction xs) auto

lemma forEach_push_plain:
  assumes "\<forall>a\<in>set data. \<not> inherited_name (a_course_id a)"
  shows "forEach_push m data =
     Inr (\<lambda>c. if c \<in> a_course_id ` set data
               then Some (or_empty (m c) @ filter (\<lambda>a. a_course_id a = c) data)
               else m c)"
  using assms
proof (induction data arbitrary: m)
  case Nil
  show ?case by simp
next
  case (Cons x xs)
  have x: "\<not> inherited_name (a_course_id x)" and xs: "\<forall>a\<in>set xs. \<not> inherited_name (a_course_id a)"
    using Cons.prems by simp_all
  show ?case
    unfolding forEach_push.simps push_grouped_plain [OF x] sum.case Cons.IH [OF xs]
    by (rule arg_cong [where f = Inr]) (rule ext, auto simp add: filter_absent)
qed



text \<open>
  For rows whose course identifiers are none of the inherited names, the answer is
  grouped as intended: the keys are the course identifiers of the rows, each list holds
  the rows of its course in the order of the answer, and an answer ordered by phase
  number gives lists ordered by phase number.
\<close>

lemma fetchAssignments_groups_plain_ids:
  assumes "\<forall>a\<in>set data. \<not> inherited_name (a_course_id a)"
    and "sorted (map a_phase_number data)"
  shows "dom (assignments (fst (fetchAssignments courses (Success (Some data)) st)))
           = set (map a_course_id data)
       \<and> (\<forall>c \<in> set (map a_course_id data).
            assignments (fst (fetchAssignments courses (Success (Some data)) st)) c
              = Some (filter (\<lambda>a. a_course_id a = c) data)
            \<and> sorted (map a_phase_number (filter (\<lambda>a. a_course_id a = c) data)))"
proof -
  have m: "assignments (fst (fetchAssignments courses (Success (Some data)) st))
             = (\<lambda>c. if c \<in> a_course_id ` set data
                     then Some (filter (\<lambda>a. a_course_id a = c) data) else None)"
    by (simp add: fetchAssignments_def fetchAssignments_resumed_def
          forEach_push_plain [OF assms(1)] fun_eq_iff)
  have s: "sorted (map a_phase_number (filter (\<lambda>a. a_course_id a = c) data))" for c
    using assms(2) by (rule sorted_filter)
  show ?thesis
    unfolding m using s by (auto simp add: dom_def)
qed



subsection \<open>Counts\<close>

text \<open>
  For a course identifier that the index holds, or that is no inherited name, the counts
  are the intended ones: the length of the course's list, or 0 without one, and the
  number of its assignments that some submission matches.
\<close>

lemma counts_plain:
  assumes "assignments st c \<noteq> None \<or> \<not> inherited_name c"
  shows "getCompletedCountForCourse st c
           = Inr (length (filter (\<lambda>a. a_id a \<in> s_assignment_id ` set (submissions st))
                     (case assignments st c of None \<Rightarrow> [] | Some xs \<Rightarrow> xs)))"
    and "getAssignmentCountForCourse st c
           = (case assignments st c of None \<Rightarrow> 0 | Some xs \<Rightarrow> length xs)"
proof -
  have g: "(\<lambda>a. getSubmission st (a_id a) \<noteq> None)
             = (\<lambda>a. a_id a \<in> s_assignment_id ` set (submissions st))"
    by (rule ext) (force simp add: getSubmission_def find_None_iff)
  show "getCompletedCountForCourse st c
           = Inr (length (filter (\<lambda>a. a_id a \<in> s_assignment_id ` set (submissions st))
                     (case assignments st c of None \<Rightarrow> [] | Some xs \<Rightarrow> xs)))"
    unfolding getCompletedCountForCourse_def g using assms
    by (cases "assignments st c") (simp_all add: js_get_own js_get_plain)
  show "getAssignmentCountForCourse st c
           = (case assignments st c of None \<Rightarrow> 0 | Some xs \<Rightarrow> length xs)"
    unfolding getAssignmentCountForCourse_def using assms
    by (cases "assignments st c") (simp_all add: js_get_own js_get_plain)
qed

lemma counts_bounded_plain_ids:
  assumes "assignments st c \<noteq> None \<or> \<not> inherited_name c"
  shows "\<exists>n. getCompletedCountForCourse st c = Inr n \<and> n \<le> getAssignmentCountForCourse st c"
  unfolding counts_plain [OF assms]
  by (cases "assignments st c") simp_all

subsection \<open>Policies\<close>

lemma sql_and_True: "sql_and x y = Some True \<longleftrightarrow> x = Some True \<and> y = Some True"
  by (cases "(x, y)" rule: sql_and.cases) simp_all

lemma sql_eq_True: "sql_eq x y = Some True \<longleftrightarrow> (\<exists>a. x = Some a \<and> y = Some a)"
  by (auto simp add: sql_eq_def split: option.splits)

lemma students_upload_passes:
  "check_passes students_upload env row \<longleftrightarrow>
     bucket_id row = ''assignments'' \<and> auth_uid env \<noteq> None
     \<and> sql_subscript (foldername (name row)) 1 = Some ''submissions''
     \<and> sql_subscript (foldername (name row)) 2 = auth_uid env"
  by (auto simp add: check_passes_def students_upload_def sql_and_True sql_eq_True
        sql_is_not_null_def)

lemma students_view_passes:
  "using_passes students_view env row \<longleftrightarrow>
     bucket_id row = ''assignments''
     \<and> sql_subscript (foldername (name row)) 1 = Some ''submissions''
     \<and> sql_subscript (foldername (name row)) 2 = auth_uid env
     \<and> auth_uid env \<noteq> None"
  by (auto simp add: using_passes_def students_view_def sql_and_True sql_eq_True)

text \<open>
  In the bucket \<^verbatim>\<open>assignments\<close> an insert passes through the students' policy or
  through the admins' one; the policies of the other bucket reject the row.
\<close>

lemma insert_permitted_assignments:
  assumes "bucket_id row = ''assignments''"
  shows "insert_permitted env row \<longleftrightarrow>
           check_passes students_upload env row
           \<or> has_role env (auth_uid env) ''admin'' = Some True"
proof -
  have a: "check_passes admins_manage_assignments env row
             \<longleftrightarrow> has_role env (auth_uid env) ''admin'' = Some True"
    using assms by (simp add: check_passes_def admins_manage_assignments_def sql_and_True)
  have t: "\<not> check_passes tutors_upload_materials env row"
    using assms by (simp add: check_passes_def tutors_upload_materials_def sql_and_True)
  have m: "\<not> check_passes admins_manage_materials env row"
    using assms by (simp add: check_passes_def admins_manage_materials_def sql_and_True)
  have f: "applies_to students_upload CmdInsert" "\<not> applies_to students_view CmdInsert"
    "\<not> applies_to tutors_view CmdInsert" "applies_to admins_manage_assignments CmdInsert"
    "\<not> applies_to anyone_views_materials CmdInsert" "applies_to tutors_upload_materials CmdInsert"
    "\<not> applies_to tutors_delete_materials CmdInsert" "applies_to admins_manage_materials CmdInsert"
    by (simp_all add: applies_to_def students_upload_def students_view_def tutors_view_def
          admins_manage_assignments_def anyone_views_materials_def tutors_upload_materials_def
          tutors_delete_materials_def admins_manage_materials_def)
  show ?thesis
    by (simp add: insert_permitted_def storage_policies_def f a t m)
qed

lemma ex_folders: "foldername (name ex_object) = [''submissions'', ''u1'']"
  by (simp add: ex_object_def foldername_def string_to_array_def)

lemma ex_insert: "insert_permitted ex_env ex_object"
proof -
  have b: "bucket_id ex_object = ''assignments''" by (simp add: ex_object_def)
  have u: "auth_uid ex_env = Some ''u1''" by (simp add: ex_env_def)
  show ?thesis
    by (simp add: insert_permitted_assignments [OF b] students_upload_passes ex_folders
          sql_subscript_def b u)
qed

subsection \<open>First match\<close>

lemma find_first:
  "List.find P xs = Some x \<longleftrightarrow>
     (\<exists>pre post. xs = pre @ x # post \<and> P x \<and> (\<forall>y\<in>set pre. \<not> P y))"
proof (induction xs)
  case Nil
  show ?case by simp
next
  case (Cons z zs)
  show ?case
  proof (cases "P z")
    case True
    have "(\<exists>pre post. z # zs = pre @ x # post \<and> P x \<and> (\<forall>y\<in>set pre. \<not> P y)) \<longleftrightarrow> z = x"
    proof
      assume "\<exists>pre post. z # zs = pre @ x # post \<and> P x \<and> (\<forall>y\<in>set pre. \<not> P y)"
      then obtain pre post where e: "z # zs = pre @ x # post" and n: "\<forall>y\<in>set pre. \<not> P y"
        by blast
      show "z = x"
      proof (cases pre)
        case Nil
        with e show ?thesis by simp
      next
        case (Cons p ps)
        with e n True show ?thesis by simp
      qed
    next
      assume "z = x"
      with True have "z # zs = [] @ x # zs \<and> P x \<and> (\<forall>y\<in>set []. \<not> P y)" by simp
      then show "\<exists>pre post. z # zs = pre @ x # post \<and> P x \<and> (\<forall>y\<in>set pre. \<not> P y)"
        by blast
    qed
    with True show ?thesis by simp
  next
    case False
    have "(\<exists>pre post. z # zs = pre @ x # post \<and> P x \<and> (\<forall>y\<in>set pre. \<not> P y))
          \<longleftrightarrow> (\<exists>pre post. zs = pre @ x # post \<and> P x \<and> (\<forall>y\<in>set pre. \<not> P y))"
    proof
      assume "\<exists>pre post. z # zs = pre @ x # post \<and> P x \<and> (\<forall>y\<in>set pre. \<not> P y)"
      then obtain pre post where e: "z # zs = pre @ x # post" and px: "P x"
        and n: "\<forall>y\<in>set pre. \<not> P y"
        by blast
      show "\<exists>pre post. zs = pre @ x # post \<and> P x \<and> (\<forall>y\<in>set pre. \<not> P y)"
      proof (cases pre)
        case Nil
        with e px False show ?thesis by simp
      next
        case (Cons p ps)
        with e n px have "zs = ps @ x # post \<and> P x \<and> (\<forall>y\<in>set ps. \<not> P y)" by simp
        then show ?thesis by blast
      qed
    next
      assume "\<exists>pre post. zs = pre @ x # post \<and> P x \<and> (\<forall>y\<in>set pre. \<not> P y)"
      then obtain pre post where "zs = pre @ x # post" and "P x" and "\<forall>y\<in>set pre. \<not> P y"
        by blast
      with False have "z # zs = (z # pre) @ x # post \<and> P x \<and> (\<forall>y\<in>set (z # pre). \<not> P y)"
        by simp
      then show "\<exists>pre post. z # zs = pre @ x # post \<and> P x \<and> (\<forall>y\<in>set pre. \<not> P y)"
        by blast
    qed
    with False Cons.IH show ?thesis by simp
  qed
qed

section \<open>The claims\<close>

subsection \<open>Submitting\<close>

text \<open>
  Claim C1. When an identity is present, an assignment is selected and the trimmed text
  buffer is not empty, the submit handler issues exactly one write request: the insert
  into \<^verbatim>\<open>assignment_submissions\<close> of a row with the selected assignment's id, the
  identity's id, the trimmed buffer and the status \<^verbatim>\<open>"pending"\<close>. This holds whatever
  the store answers.
\<close>

theorem handleSubmit_valid_inserts_one_row:
  assumes "selectedAssignment st = Some a" and "trim (submissionText st) \<noteq> []"
  shows "filter is_write (requests_of (snd (handleSubmit (Some u) iresp sresp st)))
         = [InsertSubmission \<lparr>r_assignment_id = a_id a, r_student_id = u_id u,
              r_submission_text = trim (submissionText st), r_status = js ''pending''\<rparr>]"
  using assms by (cases iresp) (simp_all add: handleSubmit_def fetchSubmissions_def fetchSubmissions_sent_def
        fetchSubmissions_resumed_def)

text \<open>In the scenario the buffer \<^verbatim>\<open>" My answer\n"\<close> is stored as \<^verbatim>\<open>"My answer"\<close>.\<close>

theorem handleSubmit_valid_inserts_one_row_witness:
  "selectedAssignment ex_state = Some ex_assignment
   \<and> trim (submissionText ex_state) \<noteq> []
   \<and> filter is_write (requests_of (snd
        (handleSubmit (Some ex_user) (Success None) (Success (Some [ex_submission])) ex_state)))
     = [InsertSubmission \<lparr>r_assignment_id = js ''a1'', r_student_id = js ''u1'',
          r_submission_text = js ''My answer'', r_status = js ''pending''\<rparr>]"
  using handleSubmit_valid_inserts_one_row [OF ex_selected ex_trim_nonempty,
      of ex_user "Success None" "Success (Some [ex_submission])"]
    ex_selected ex_trim_nonempty
  by (simp add: ex_trim ex_assignment_def ex_user_def)

text \<open>
  Claim C2. When the identity is absent, or no assignment is selected, or the trimmed
  text buffer is empty, the submit handler sends nothing to the store and shows the
  validation error, in every state and whatever the store would have answered; the state
  is left as it was.
\<close>

theorem handleSubmit_invalid_rejected:
  assumes "user = None \<or> selectedAssignment st = None \<or> trim (submissionText st) = []"
  shows "handleSubmit user iresp sresp st
           = (st, [ToastError (js ''Please enter your submission'')])
         \<and> requests_of (snd (handleSubmit user iresp sresp st)) = []"
proof -
  have "handleSubmit user iresp sresp st
          = (st, [ToastError (js ''Please enter your submission'')])"
    using assms by (cases user; cases "selectedAssignment st") (simp_all add: handleSubmit_def)
  then show ?thesis by simp
qed

text \<open>A buffer of two spaces, a tab, a no-break space and a line feed is rejected.\<close>

theorem handleSubmit_invalid_rejected_witness:
  "(Some ex_user = None \<or> selectedAssignment ex_state = None
      \<or> trim (submissionText
            (ex_state\<lparr>submissionText := js ''  '' @ [0x0009, 0x00A0, 0x000A]\<rparr>)) = [])
   \<and> handleSubmit (Some ex_user) (Success None) (Success (Some []))
        (ex_state\<lparr>submissionText := js ''  '' @ [0x0009, 0x00A0, 0x000A]\<rparr>)
      = (ex_state\<lparr>submissionText := js ''  '' @ [0x0009, 0x00A0, 0x000A]\<rparr>,
         [ToastError (js ''Please enter your submission'')])"
proof -
  have h: "trim (submissionText
             (ex_state\<lparr>submissionText := js ''  '' @ [0x0009, 0x00A0, 0x000A]\<rparr>)) = []"
    by (simp add: trim_def is_whitespace_def whitespace_units_def js_def)
  show ?thesis
    using handleSubmit_invalid_rejected
      [of "Some ex_user" "ex_state\<lparr>submissionText := js ''  '' @ [0x0009, 0x00A0, 0x000A]\<rparr>"
          "Success None" "Success (Some [])"] h
    by simp
qed

text \<open>
  Claim C3, as the code has it. After a successful insert the handler shows the
  confirmation, clears the selected assignment (the dialog closes), empties the text
  buffer and issues the submission fetch again, whose answer replaces the cached
  submission list. These are all its effects: the assignment index is kept as it is.
\<close>

theorem handleSubmit_success_refetches_submissions:
  assumes "selectedAssignment st = Some a" and "trim (submissionText st) \<noteq> []"
    and "resp_error iresp = None"
  shows "handleSubmit (Some u) iresp sresp st
         = (st\<lparr>selectedAssignment := None, submissionText := [],
                submissions := or_empty (resp_data sresp)\<rparr>,
            [Request (InsertSubmission \<lparr>r_assignment_id = a_id a, r_student_id = u_id u,
               r_submission_text = trim (submissionText st), r_status = js ''pending''\<rparr>),
             ToastSuccess (js ''Assignment submitted successfully!''),
             Request (SelectSubmissions (u_id u))])"
  using assms by (simp add: handleSubmit_def fetchSubmissions_def fetchSubmissions_sent_def
        fetchSubmissions_resumed_def)

theorem handleSubmit_success_refetches_submissions_witness:
  "selectedAssignment ex_state = Some ex_assignment
   \<and> trim (submissionText ex_state) \<noteq> []
   \<and> resp_error (Success None :: unit option response) = None
   \<and> \<not> submitDialogOpen
         (fst (handleSubmit (Some ex_user) (Success None) (Success (Some [ex_submission])) ex_state))
   \<and> submissionText
         (fst (handleSubmit (Some ex_user) (Success None) (Success (Some [ex_submission])) ex_state))
       = []
   \<and> submissions
         (fst (handleSubmit (Some ex_user) (Success None) (Success (Some [ex_submission])) ex_state))
       = [ex_submission]
   \<and> toasts_of
         (snd (handleSubmit (Some ex_user) (Success None) (Success (Some [ex_submission])) ex_state))
       = [ToastSuccess (js ''Assignment submitted successfully!'')]"
proof -
  have r: "resp_error (Success None :: unit option response) = None" by simp
  show ?thesis
    using handleSubmit_success_refetches_submissions [OF ex_selected ex_trim_nonempty r,
        of ex_user "Success (Some [ex_submission])"]
      ex_selected ex_trim_nonempty
    by (simp add: submitDialogOpen_def)
qed

text \<open>
  The claim as the specification states it fails: in the scenario the insert succeeds and
  the requests of the handler are the insert and the submission fetch, with no
  assignment fetch among them.
\<close>

theorem handleSubmit_success_no_assignment_fetch:
  "requests_of (snd
     (handleSubmit (Some ex_user) (Success None) (Success (Some [ex_submission])) ex_state))
     = [InsertSubmission \<lparr>r_assignment_id = js ''a1'', r_student_id = js ''u1'',
          r_submission_text = js ''My answer'', r_status = js ''pending''\<rparr>,
        SelectSubmissions (js ''u1'')]
   \<and> \<not> list_ex is_assignment_fetch (requests_of (snd
         (handleSubmit (Some ex_user) (Success None) (Success (Some [ex_submission])) ex_state)))"
  by (simp add: handleSubmit_def fetchSubmissions_def fetchSubmissions_sent_def
        fetchSubmissions_resumed_def ex_trim ex_selected ex_user_def
        ex_assignment_def js_def)

text \<open>
  Claim C4. When the insert fails, the handler shows the error and returns the state it
  was given: the selected assignment stays (the dialog stays open), the text buffer keeps
  its contents, the assignment index and the submission list are those before the call.
  Nothing is sent after the failed insert.
\<close>

theorem handleSubmit_insert_failure_keeps_state:
  assumes "selectedAssignment st = Some a" and "trim (submissionText st) \<noteq> []"
  shows "handleSubmit (Some u) (Failure e) sresp st
         = (st, [Request (InsertSubmission \<lparr>r_assignment_id = a_id a, r_student_id = u_id u,
                   r_submission_text = trim (submissionText st), r_status = js ''pending''\<rparr>),
                 ToastError (js ''Failed to submit assignment'')])"
  using assms by (simp add: handleSubmit_def)

theorem handleSubmit_insert_failure_keeps_state_witness:
  "selectedAssignment ex_state = Some ex_assignment
   \<and> trim (submissionText ex_state) \<noteq> []
   \<and> fst (handleSubmit (Some ex_user) (Failure (PgError (js ''timeout'')))
            (Success (Some [ex_submission])) ex_state) = ex_state
   \<and> submitDialogOpen (fst (handleSubmit (Some ex_user) (Failure (PgError (js ''timeout'')))
            (Success (Some [ex_submission])) ex_state))
   \<and> toasts_of (snd (handleSubmit (Some ex_user) (Failure (PgError (js ''timeout'')))
            (Success (Some [ex_submission])) ex_state))
       = [ToastError (js ''Failed to submit assignment'')]"
  using handleSubmit_insert_failure_keeps_state [OF ex_selected ex_trim_nonempty,
      of ex_user "PgError (js ''timeout'')" "Success (Some [ex_submission])"]
    ex_selected ex_trim_nonempty
  by (simp add: submitDialogOpen_def)

subsection \<open>Loading\<close>


text \<open>
  Claim C7, as the code has it. When the course list is empty or the identity is absent,
  the effect issues neither fetch and leaves the state alone. The view shows the
  empty-state message exactly when the course list is empty; the identity plays no part
  in that choice.
\<close>

theorem loadEffect_skipped_and_empty_state:
  assumes "courses = [] \<or> user = None"
  shows "loadEffect courses user aresp sresp st = (st, [])
       \<and> (render courses st = Inr (EmptyState (js ''Enroll in a course to see assignments''))
            \<longleftrightarrow> courses = [])"
  using assms by (auto simp add: loadEffect_def render_def split: sum.splits)

theorem loadEffect_skipped_and_empty_state_witness:
  "([ex_course] = [] \<or> (None :: User option) = None)
   \<and> loadEffect [ex_course] None (Success (Some ex_fetched)) (Success (Some [])) ex_state
       = (ex_state, [])
   \<and> loadEffect [] (Some ex_user) (Success (Some ex_fetched)) (Success (Some [])) ex_state
       = (ex_state, [])
   \<and> render [] ex_state = Inr (EmptyState (js ''Enroll in a course to see assignments''))"
  using loadEffect_skipped_and_empty_state
      [of "[ex_course]" None "Success (Some ex_fetched)" "Success (Some [])" ex_state]
    loadEffect_skipped_and_empty_state
      [of "[]" "Some ex_user" "Success (Some ex_fetched)" "Success (Some [])" ex_state]
  by simp

text \<open>
  The claim as the specification states it fails: with one course and no identity nothing
  is fetched, and the view is the course list, not the empty-state message.
\<close>

theorem render_without_identity_not_empty_state:
  "loadEffect [ex_course] None (Success (Some ex_fetched)) (Success (Some [])) ex_state
     = (ex_state, [])
   \<and> render [ex_course] ex_state
     = Inr (CourseAccordion
         [\<lparr>sec_course = ex_course, sec_completed = 0, sec_total = 1,
           sec_content = Rows [render_row ex_state ex_assignment]\<rparr>])
   \<and> render [ex_course] ex_state
     \<noteq> Inr (EmptyState (js ''Enroll in a course to see assignments''))"
proof -
  have a: "assignments ex_state (c_id ex_course) = Some [ex_assignment]"
    by (simp add: ex_state_def ex_course_def)
  have n: "getSubmission ex_state (a_id ex_assignment) = None"
    by (simp add: getSubmission_def ex_state_def)
  have g: "js_get (assignments ex_state) (c_id ex_course) = ArrayValue [ex_assignment]"
    using a by (rule js_get_own)
  have s: "render_section ex_state ex_course
      = Inr \<lparr>sec_course = ex_course, sec_completed = 0, sec_total = 1,
           sec_content = Rows [render_row ex_state ex_assignment]\<rparr>"
    by (simp add: render_section_def render_content_def getCompletedCountForCourse_def
          getAssignmentCountForCourse_def g n)
  show ?thesis
    by (simp add: loadEffect_def render_def s)
qed

text \<open>
  Claim C8. A failed read is followed by no second request and by no toast. A failed
  assignment fetch writes the error to the console and returns the state unchanged, the
  assignment index with it; a failed submission fetch sets the submission list to the
  empty list and reports nothing.
\<close>

theorem read_failures_silent:
  "fetchAssignments courses (Failure e) st
     = (st, [Request (SelectAssignments (map c_id courses)),
             ConsoleError (js ''Failed to fetch assignments:'') e])
   \<and> fetchSubmissions (Some u) (Failure e) st
     = (st\<lparr>submissions := []\<rparr>, [Request (SelectSubmissions (u_id u))])
   \<and> toasts_of (snd (fetchAssignments courses (Failure e) st)) = []
   \<and> toasts_of (snd (fetchSubmissions (Some u) (Failure e) st)) = []"
  by (simp add: fetchAssignments_def fetchAssignments_sent_def fetchAssignments_resumed_def
        fetchSubmissions_def fetchSubmissions_sent_def fetchSubmissions_resumed_def)

text \<open>Both reads failing in the scenario: two requests, the index kept, the list emptied.\<close>

theorem read_failures_silent_witness:
  "requests_of (snd (loadEffect [ex_course] (Some ex_user) (Failure (PgError (js ''timeout'')))
       (Failure (PgError (js ''timeout''))) (ex_state\<lparr>submissions := [ex_submission]\<rparr>)))
     = [SelectAssignments [js ''c1''], SelectSubmissions (js ''u1'')]
   \<and> toasts_of (snd (loadEffect [ex_course] (Some ex_user) (Failure (PgError (js ''timeout'')))
       (Failure (PgError (js ''timeout''))) (ex_state\<lparr>submissions := [ex_submission]\<rparr>)))
     = []
   \<and> fst (loadEffect [ex_course] (Some ex_user) (Failure (PgError (js ''timeout'')))
       (Failure (PgError (js ''timeout''))) (ex_state\<lparr>submissions := [ex_submission]\<rparr>))
     = ex_state"
  using read_failures_silent [of "[ex_course]" "PgError (js ''timeout'')"
      "ex_state\<lparr>submissions := [ex_submission]\<rparr>" ex_user]
  by (simp add: loadEffect_def fetchAssignments_sent_def fetchAssignments_resumed_def
        fetchSubmissions_sent_def fetchSubmissions_resumed_def ex_course_def ex_user_def,
      simp add: ex_state_def)

subsection \<open>Display\<close>

text \<open>
  Claim C6. The row of an assignment is in one of four display states, fixed by the
  first submission of the list whose assignment id is the assignment's: with none, the
  ``Not submitted'' badge and the submit button alone; with status \<^verbatim>\<open>"pending"\<close>, the
  ``Pending'' badge and no button (only the awaiting-review text); with status
  \<^verbatim>\<open>"graded"\<close>, the ``Graded'' badge and the feedback button alone; with any other
  status, the secondary badge whose text is that status and no element at all. The four
  badges differ in their props, so no row is in two states.
\<close>

theorem render_row_display_states:
  "(case getSubmission st (a_id a) of
      None \<Rightarrow>
        row_badge (render_row st a)
          = \<lparr>b_variant = Some (js ''outline''), b_className = Some (js ''text-muted-foreground''),
             b_icon = Some Clock, b_text = js ''Not submitted''\<rparr>
        \<and> row_children (render_row st a) = [SubmitButton a]
    | Some s \<Rightarrow>
        if s_status s = js ''pending'' then
          row_badge (render_row st a)
            = \<lparr>b_variant = None, b_className = Some (js ''bg-yellow-500/10 text-yellow-600''),
               b_icon = Some Clock, b_text = js ''Pending''\<rparr>
          \<and> row_children (render_row st a) = [AwaitingReviewText]
        else if s_status s = js ''graded'' then
          row_badge (render_row st a)
            = \<lparr>b_variant = None, b_className = Some (js ''bg-green-500/10 text-green-600''),
               b_icon = Some CheckCircle, b_text = js ''Graded''\<rparr>
          \<and> row_children (render_row st a) = [ViewFeedbackButton s]
        else
          row_badge (render_row st a)
            = \<lparr>b_variant = Some (js ''secondary''), b_className = None,
               b_icon = None, b_text = s_status s\<rparr>
          \<and> row_children (render_row st a) = [])
   \<and> (getSubmission st (a_id a) = None
        \<longleftrightarrow> (\<forall>s\<in>set (submissions st). s_assignment_id s \<noteq> a_id a))
   \<and> (\<forall>s. getSubmission st (a_id a) = Some s
        \<longleftrightarrow> (\<exists>pre post. submissions st = pre @ s # post \<and> s_assignment_id s = a_id a
                \<and> (\<forall>x\<in>set pre. s_assignment_id x \<noteq> a_id a)))
   \<and> (b_variant (row_badge (render_row st a)) = Some (js ''outline'')
        \<longleftrightarrow> getSubmission st (a_id a) = None)
   \<and> (b_className (row_badge (render_row st a)) = Some (js ''bg-yellow-500/10 text-yellow-600'')
        \<longleftrightarrow> (\<exists>s. getSubmission st (a_id a) = Some s \<and> s_status s = js ''pending''))
   \<and> (b_className (row_badge (render_row st a)) = Some (js ''bg-green-500/10 text-green-600'')
        \<longleftrightarrow> (\<exists>s. getSubmission st (a_id a) = Some s \<and> s_status s = js ''graded''))
   \<and> (b_variant (row_badge (render_row st a)) = Some (js ''secondary'')
        \<longleftrightarrow> (\<exists>s. getSubmission st (a_id a) = Some s
                  \<and> s_status s \<noteq> js ''pending'' \<and> s_status s \<noteq> js ''graded''))"
proof -
  have lits0: "js ''outline'' \<noteq> js ''secondary''"
    "js ''bg-yellow-500/10 text-yellow-600'' \<noteq> js ''bg-green-500/10 text-green-600''"
    "js ''bg-yellow-500/10 text-yellow-600'' \<noteq> js ''text-muted-foreground''"
    "js ''bg-green-500/10 text-green-600'' \<noteq> js ''text-muted-foreground''"
    "js ''pending'' \<noteq> js ''graded''"
    by (simp_all add: js_def)
  note lits = lits0 lits0 [THEN not_sym]
  have rows: "row_badge (render_row st a) = getStatusBadge (getSubmission st (a_id a))"
    "row_children (render_row st a) = row_elements a (getSubmission st (a_id a))"
    by (simp_all add: render_row_def Let_def)
  have "case getSubmission st (a_id a) of
      None \<Rightarrow>
        row_badge (render_row st a)
          = \<lparr>b_variant = Some (js ''outline''), b_className = Some (js ''text-muted-foreground''),
             b_icon = Some Clock, b_text = js ''Not submitted''\<rparr>
        \<and> row_children (render_row st a) = [SubmitButton a]
    | Some s \<Rightarrow>
        if s_status s = js ''pending'' then
          row_badge (render_row st a)
            = \<lparr>b_variant = None, b_className = Some (js ''bg-yellow-500/10 text-yellow-600''),
               b_icon = Some Clock, b_text = js ''Pending''\<rparr>
          \<and> row_children (render_row st a) = [AwaitingReviewText]
        else if s_status s = js ''graded'' then
          row_badge (render_row st a)
            = \<lparr>b_variant = None, b_className = Some (js ''bg-green-500/10 text-green-600''),
               b_icon = Some CheckCircle, b_text = js ''Graded''\<rparr>
          \<and> row_children (render_row st a) = [ViewFeedbackButton s]
        else
          row_badge (render_row st a)
            = \<lparr>b_variant = Some (js ''secondary''), b_className = None,
               b_icon = None, b_text = s_status s\<rparr>
          \<and> row_children (render_row st a) = []"
    unfolding rows
    by (cases "getSubmission st (a_id a)")
       (simp_all add: getStatusBadge_def row_elements_def lits)
  moreover have "getSubmission st (a_id a) = None
        \<longleftrightarrow> (\<forall>s\<in>set (submissions st). s_assignment_id s \<noteq> a_id a)"
    by (auto simp add: getSubmission_def find_None_iff)
  moreover have "\<forall>s. getSubmission st (a_id a) = Some s
        \<longleftrightarrow> (\<exists>pre post. submissions st = pre @ s # post \<and> s_assignment_id s = a_id a
                \<and> (\<forall>x\<in>set pre. s_assignment_id x \<noteq> a_id a))"
    unfolding getSubmission_def by (rule allI) (rule find_first)
  moreover have "b_variant (row_badge (render_row st a)) = Some (js ''outline'')
        \<longleftrightarrow> getSubmission st (a_id a) = None"
    unfolding rows
    by (cases "getSubmission st (a_id a)") (simp_all add: getStatusBadge_def lits)
  moreover have "b_className (row_badge (render_row st a))
          = Some (js ''bg-yellow-500/10 text-yellow-600'')
        \<longleftrightarrow> (\<exists>s. getSubmission st (a_id a) = Some s \<and> s_status s = js ''pending'')"
    unfolding rows
    by (cases "getSubmission st (a_id a)") (simp_all add: getStatusBadge_def lits)
  moreover have "b_className (row_badge (render_row st a))
          = Some (js ''bg-green-500/10 text-green-600'')
        \<longleftrightarrow> (\<exists>s. getSubmission st (a_id a) = Some s \<and> s_status s = js ''graded'')"
    unfolding rows
    by (cases "getSubmission st (a_id a)") (auto simp add: getStatusBadge_def lits)
  moreover have "b_variant (row_badge (render_row st a)) = Some (js ''secondary'')
        \<longleftrightarrow> (\<exists>s. getSubmission st (a_id a) = Some s
                  \<and> s_status s \<noteq> js ''pending'' \<and> s_status s \<noteq> js ''graded'')"
    unfolding rows
    by (cases "getSubmission st (a_id a)") (simp_all add: getStatusBadge_def lits)
  ultimately show ?thesis by (intro conjI)
qed

text \<open>
  Two submissions for \<^verbatim>\<open>a1\<close>, a pending one before a graded one: the row shows the
  pending state, the first match deciding.
\<close>

theorem render_row_display_states_witness:
  "getSubmission
     (ex_state\<lparr>submissions := [ex_submission, ex_submission\<lparr>s_status := js ''graded''\<rparr>]\<rparr>)
     (a_id ex_assignment) = Some ex_submission
   \<and> b_text (row_badge (render_row
       (ex_state\<lparr>submissions := [ex_submission, ex_submission\<lparr>s_status := js ''graded''\<rparr>]\<rparr>)
       ex_assignment)) = js ''Pending''
   \<and> row_children (render_row
       (ex_state\<lparr>submissions := [ex_submission, ex_submission\<lparr>s_status := js ''graded''\<rparr>]\<rparr>)
       ex_assignment) = [AwaitingReviewText]
   \<and> row_children (render_row ex_state ex_assignment) = [SubmitButton ex_assignment]"
proof -
  have g: "getSubmission
     (ex_state\<lparr>submissions := [ex_submission, ex_submission\<lparr>s_status := js ''graded''\<rparr>]\<rparr>)
     (a_id ex_assignment) = Some ex_submission"
    by (simp add: getSubmission_def ex_submission_def ex_assignment_def)
  have n: "getSubmission ex_state (a_id ex_assignment) = None"
    by (simp add: getSubmission_def ex_state_def)
  have p: "s_status ex_submission = js ''pending''"
    by (simp add: ex_submission_def)
  show ?thesis
    using render_row_display_states
        [of "ex_state\<lparr>submissions := [ex_submission, ex_submission\<lparr>s_status := js ''graded''\<rparr>]\<rparr>"
            ex_assignment]
      render_row_display_states [of ex_state ex_assignment]
    unfolding g n by (simp add: p)
qed

text \<open>
  Claim C10. For every course identifier and every cached state the completed count lies
  between 0 and the assignment count, an assignment counting once however many
  submissions match it, and both counts are 0 for a course identifier absent from the
  assignment index. The code does not do this for every identifier: the scenario's index
  holds no course \<^verbatim>\<open>constructor\<close>, yet the assignment count for it is 1 and the
  completed count is no number, the call throws.
\<close>

theorem counts_constructor_course:
  "assignments ex_state (js ''constructor'') = None
   \<and> getAssignmentCountForCourse ex_state (js ''constructor'') = 1
   \<and> getCompletedCountForCourse ex_state (js ''constructor'') = Inl TypeError"
proof -
  have a: "assignments ex_state (js ''constructor'') = None"
    by (simp add: ex_state_def js_def)
  have g: "js_get (assignments ex_state) (js ''constructor'') = Inherited (BuiltinFunction 1)"
    unfolding js_get_def a by (simp add: object_prototype_def js_def)
  show ?thesis
    by (simp add: a getAssignmentCountForCourse_def getCompletedCountForCourse_def g)
qed

subsection \<open>Storage policies\<close>

text \<open>
  Claim C9. For an authenticated identity that is not an admin and an object of the
  bucket \<^verbatim>\<open>assignments\<close>: the policies on \<^verbatim>\<open>storage.objects\<close> let the identity insert
  the object only if the first folder of its path is \<^verbatim>\<open>submissions\<close> and the second is
  the identity's own user id, and the students' read policy lets it read the object only
  under the same condition.
\<close>

theorem student_storage_paths:
  assumes "auth_uid env = Some u"
    and "has_role env (Some u) ''admin'' \<noteq> Some True"
    and "bucket_id row = ''assignments''"
  shows "(insert_permitted env row \<longrightarrow>
            sql_subscript (foldername (name row)) 1 = Some ''submissions''
            \<and> sql_subscript (foldername (name row)) 2 = Some u)
       \<and> (using_passes students_view env row \<longrightarrow>
            sql_subscript (foldername (name row)) 1 = Some ''submissions''
            \<and> sql_subscript (foldername (name row)) 2 = Some u)"
  using assms
  by (simp add: insert_permitted_assignments students_upload_passes students_view_passes)

text \<open>
  The student \<^verbatim>\<open>u1\<close> may insert and read \<^verbatim>\<open>submissions/u1/essay.pdf\<close>, and may insert
  neither under another student's folder nor at the top of the bucket.
\<close>

theorem student_storage_paths_witness:
  "auth_uid ex_env = Some ''u1''
   \<and> has_role ex_env (Some ''u1'') ''admin'' \<noteq> Some True
   \<and> bucket_id ex_object = ''assignments''
   \<and> insert_permitted ex_env ex_object
   \<and> using_passes students_view ex_env ex_object
   \<and> sql_subscript (foldername (name ex_object)) 1 = Some ''submissions''
   \<and> sql_subscript (foldername (name ex_object)) 2 = Some ''u1''
   \<and> \<not> insert_permitted ex_env (ex_object\<lparr>name := ''submissions/u2/essay.pdf''\<rparr>)
   \<and> \<not> insert_permitted ex_env (ex_object\<lparr>name := ''essay.pdf''\<rparr>)"
proof -
  have u: "auth_uid ex_env = Some ''u1''" by (simp add: ex_env_def)
  have r: "has_role ex_env (Some ''u1'') ''admin'' \<noteq> Some True" by (simp add: ex_env_def)
  have b: "bucket_id ex_object = ''assignments''" by (simp add: ex_object_def)
  have b2: "bucket_id (ex_object\<lparr>name := n\<rparr>) = ''assignments''" for n
    by (simp add: ex_object_def)
  have v: "using_passes students_view ex_env ex_object"
    by (simp add: students_view_passes ex_folders sql_subscript_def u b)
  have f2: "sql_subscript
      (foldername (name (ex_object\<lparr>name := ''submissions/u2/essay.pdf''\<rparr>))) 2 = Some ''u2''"
    by (simp add: foldername_def string_to_array_def sql_subscript_def)
  have f3: "sql_subscript (foldername (name (ex_object\<lparr>name := ''essay.pdf''\<rparr>))) 1 = None"
    by (simp add: foldername_def string_to_array_def sql_subscript_def)
  show ?thesis
    using student_storage_paths [OF u r b]
      student_storage_paths [OF u r b2, of "''submissions/u2/essay.pdf''"]
      student_storage_paths [OF u r b2, of "''essay.pdf''"] u r b v ex_insert f2 f3
    by auto
qed

end
